theory Spec2Isabelle
  imports Main "HOL-Library.Word"
begin

section \<open>Python values and strings\<close>

text \<open>
  A Python \<open>str\<close> is a sequence of Unicode code points: \<open>line[1:]\<close> drops one code
  point and \<open>startswith\<close> compares code points. A code point is a natural number here,
  so the bullet U+2022 is one character and the three characters U+00E2 U+20AC U+00A2
  that the source of \<open>parse_fallback_response\<close> tests for are three.
  \<open>lit\<close> turns an ASCII literal into such a string.
\<close>

type_synonym pychar = nat
type_synonym pystr = "pychar list"

definition lit :: "string \<Rightarrow> pystr" where
  "lit s = map of_char s"

text \<open>
  The exceptions the modelled code can meet: the builtin ones it raises itself, the
  \<open>JSONDecodeError\<close> it handles, and any other subclass of \<open>Exception\<close> (those of the
  API client, say), given by its name. All of them are what \<open>except Exception\<close>
  catches.
\<close>

datatype exn =
    AttributeError | TypeError | ValueError | OverflowError | KeyError
  | RecursionError | JSONDecodeError | Other_exception pystr

text \<open>
  What \<open>json.loads\<close> returns, and what the result dictionaries hold. A \<open>dict\<close> is an
  association list in insertion order; \<open>get\<close> reads the first binding of a key.
  A float is its IEEE 754 bit pattern: the code only converts floats (\<open>int\<close>, \<open>str\<close>) or
  tests their truth value, and those operations belong to the interpreter.
\<close>

type_synonym pyfloat = "64 word"

datatype pyval =
    PNone
  | PBool bool
  | PInt int
  | PFloat pyfloat
  | PStr pystr
  | PList "pyval list"
  | PDict "(pystr \<times> pyval) list"

type_synonym dict = "(pystr \<times> pyval) list"

text \<open>\<open>d.get(k)\<close> and \<open>d.get(k, default)\<close>.\<close>

definition get :: "dict \<Rightarrow> pystr \<Rightarrow> pyval option" where
  "get d k = map_of d k"

definition get_default :: "dict \<Rightarrow> pystr \<Rightarrow> pyval \<Rightarrow> pyval" where
  "get_default d k dflt = (case map_of d k of Some v \<Rightarrow> v | None \<Rightarrow> dflt)"

text \<open>
  The parts of the Python interpreter and its standard library that the repository
  calls and does not define. They are parameters of the model, so every theorem below
  holds for whatever the interpreter's Unicode tables and JSON decoder are.
  \<^item> \<open>json_loads\<close>: \<open>json.loads\<close> on a \<open>str\<close>; \<open>Inl JSONDecodeError\<close> is the failure
    the source handles, any other \<open>Inl\<close> an exception the decoder may also raise;
  \<^item> \<open>int_of_str\<close>, \<open>int_of_float\<close>: the builtin \<open>int\<close> on a \<open>str\<close> and on a \<open>float\<close>;
  \<^item> \<open>float_truthy\<close>: the truth value of a \<open>float\<close>;
  \<^item> \<open>str_of\<close>: the builtin \<open>str\<close> on a value that is not a \<open>str\<close>;
  \<^item> \<open>re_digit\<close>, \<open>re_word\<close>: the classes \<open>\d\<close> and \<open>\w\<close> of module \<open>re\<close> on
    \<open>str\<close> patterns (Unicode decimal digits, Unicode alphanumerics and underscore).
\<close>

record runtime =
  json_loads :: "pystr \<Rightarrow> exn + pyval"
  int_of_str :: "pystr \<Rightarrow> exn + int"
  int_of_float :: "pyfloat \<Rightarrow> exn + int"
  float_truthy :: "pyfloat \<Rightarrow> bool"
  str_of :: "pyval \<Rightarrow> pystr"
  re_digit :: "pychar \<Rightarrow> bool"
  re_word :: "pychar \<Rightarrow> bool"

subsection \<open>String methods\<close>

text \<open>
  The characters \<open>str.strip()\<close> removes and \<open>\s\<close> matches: the code points for which
  \<open>str.isspace()\<close> holds.
\<close>

definition is_space :: "pychar \<Rightarrow> bool" where
  "is_space c \<longleftrightarrow>
     (9 \<le> c \<and> c \<le> 13) \<or> (28 \<le> c \<and> c \<le> 32) \<or> c = 133 \<or> c = 160 \<or> c = 5760 \<or>
     (8192 \<le> c \<and> c \<le> 8202) \<or> c = 8232 \<or> c = 8233 \<or> c = 8239 \<or> c = 8287 \<or>
     c = 12288"

definition strip :: "pystr \<Rightarrow> pystr" where
  "strip s = rev (dropWhile is_space (rev (dropWhile is_space s)))"

definition startswith :: "pystr \<Rightarrow> pystr \<Rightarrow> bool" where
  "startswith s p \<longleftrightarrow> take (length p) s = p"

definition endswith :: "pystr \<Rightarrow> pystr \<Rightarrow> bool" where
  "endswith s p \<longleftrightarrow> length p \<le> length s \<and> drop (length s - length p) s = p"

text \<open>\<open>s.find(p)\<close>: the least index where \<open>p\<close> occurs, \<open>None\<close> for Python's \<open>-1\<close>.\<close>

fun find_str :: "pystr \<Rightarrow> pystr \<Rightarrow> nat option" where
  "find_str [] p = (if p = [] then Some 0 else None)"
| "find_str (c # cs) p =
     (if startswith (c # cs) p then Some 0
      else (case find_str cs p of None \<Rightarrow> None | Some i \<Rightarrow> Some (Suc i)))"

text \<open>\<open>s.rfind(p)\<close>: the greatest such index.\<close>

fun rfind_str :: "pystr \<Rightarrow> pystr \<Rightarrow> nat option" where
  "rfind_str [] p = (if p = [] then Some 0 else None)"
| "rfind_str (c # cs) p =
     (case rfind_str cs p of
        Some i \<Rightarrow> Some (Suc i)
      | None \<Rightarrow> (if startswith (c # cs) p then Some 0 else None))"

text \<open>\<open>p in s\<close> for two strings.\<close>

definition contains :: "pystr \<Rightarrow> pystr \<Rightarrow> bool" where
  "contains s p \<longleftrightarrow> find_str s p \<noteq> None"

text \<open>
  \<open>s.split(sep)\<close> for a separator of one character: never empty, \<open>''.split(sep)\<close> is
  \<open>['']\<close>. \<open>split_lines\<close> is \<open>s.split('\n')\<close>.
\<close>

fun split_on :: "pychar \<Rightarrow> pystr \<Rightarrow> pystr list" where
  "split_on sep [] = [[]]"
| "split_on sep (c # cs) =
     (if c = sep then [] # split_on sep cs
      else (case split_on sep cs of l # ls \<Rightarrow> (c # l) # ls | [] \<Rightarrow> [[c]]))"

definition split_lines :: "pystr \<Rightarrow> pystr list" where
  "split_lines s = split_on 10 s"

text \<open>\<open>'\n'.join(xs)\<close>.\<close>

fun join_lines :: "pystr list \<Rightarrow> pystr" where
  "join_lines [] = []"
| "join_lines [x] = x"
| "join_lines (x # y # ys) = x @ [10] @ join_lines (y # ys)"

text \<open>
  \<open>s.lower()\<close>. The source only searches the lowered text for ASCII words and compares
  it with ASCII names, so what matters is where ASCII letters appear in it. The code
  points whose lowercase form holds an ASCII letter are \<open>A\<close> to \<open>Z\<close>, U+0130 (which
  becomes \<open>i\<close> followed by U+0307) and the Kelvin sign U+212A (which becomes \<open>k\<close>); every
  other code point lowers to code points outside ASCII or to itself, and is left as it
  is here.
\<close>

definition lower_char :: "pychar \<Rightarrow> pystr" where
  "lower_char c =
     (if 65 \<le> c \<and> c \<le> 90 then [c + 32]
      else if c = 304 then [105, 775]
      else if c = 8490 then [107]
      else [c])"

definition lower :: "pystr \<Rightarrow> pystr" where
  "lower s = concat (map lower_char s)"


section \<open>The response normalizer (\<open>utils/llm_client.py\<close>)\<close>

subsection \<open>The heuristic fallback: \<open>parse_fallback_response\<close>\<close>

text \<open>
  \<open>re.search(r'(?:ats_score|score).*?(\d+)', response_text, re.IGNORECASE)\<close>.
  Under \<open>IGNORECASE\<close> a lowercase ASCII letter of the pattern matches itself, its
  capital and, for \<open>s\<close>, \<open>i\<close> and \<open>k\<close>, the code points U+017F, U+0130, U+0131 and
  U+212A.
\<close>

definition ci_match :: "pychar \<Rightarrow> pychar \<Rightarrow> bool" where
  "ci_match p c \<longleftrightarrow>
     c = p \<or> (97 \<le> p \<and> p \<le> 122 \<and> c + 32 = p) \<or> (p = 115 \<and> c = 383) \<or>
     (p = 105 \<and> (c = 304 \<or> c = 305)) \<or> (p = 107 \<and> c = 8490)"

text \<open>Matching a literal at the start of a text; the result is the text after it.\<close>

fun ci_prefix :: "pystr \<Rightarrow> pystr \<Rightarrow> pystr option" where
  "ci_prefix [] s = Some s"
| "ci_prefix (p # ps) [] = None"
| "ci_prefix (p # ps) (c # cs) = (if ci_match p c then ci_prefix ps cs else None)"

text \<open>
  \<open>.*?(\d+)\<close>: the lazy \<open>.*?\<close> passes over characters other than the line feed until a
  digit starts the group, which then takes the whole run of digits.
\<close>

fun digits_after :: "(pychar \<Rightarrow> bool) \<Rightarrow> pystr \<Rightarrow> pystr option" where
  "digits_after dg [] = None"
| "digits_after dg (c # cs) =
     (if dg c then Some (takeWhile dg (c # cs))
      else if c = 10 then None
      else digits_after dg cs)"

text \<open>The pattern tried at one position: the first alternative, then the second.\<close>

definition score_match_at :: "runtime \<Rightarrow> pystr \<Rightarrow> pystr option" where
  "score_match_at rt s =
     (let second =
            (case ci_prefix (lit ''score'') s of
               None \<Rightarrow> None
             | Some rest \<Rightarrow> digits_after (re_digit rt) rest)
      in case ci_prefix (lit ''ats_score'') s of
           None \<Rightarrow> second
         | Some rest \<Rightarrow>
             (case digits_after (re_digit rt) rest of
                Some ds \<Rightarrow> Some ds
              | None \<Rightarrow> second))"

text \<open>The search: the leftmost position where the pattern matches; group 1 of it.\<close>

fun score_search :: "runtime \<Rightarrow> pystr \<Rightarrow> pystr option" where
  "score_search rt [] = None"
| "score_search rt (c # cs) =
     (case score_match_at rt (c # cs) of
        Some ds \<Rightarrow> Some ds
      | None \<Rightarrow> score_search rt cs)"

datatype section_name = Matched | Missing | Suggestions

record scan_state =
  current_section :: "section_name option"
  matched_keywords :: "pystr list"
  missing_keywords :: "pystr list"
  suggestions :: "pystr list"

text \<open>
  The three-character literal of the source's first \<open>startswith\<close> test:
  U+00E2, U+20AC, U+00A2.
\<close>

definition bullet_literal :: pystr where
  "bullet_literal = [226, 8364, 162]"

text \<open>One iteration of the loop over the lines.\<close>

definition scan_line :: "scan_state \<Rightarrow> pystr \<Rightarrow> scan_state" where
  "scan_line st raw =
     (let line = strip raw in
      if contains (lower line) (lit ''matched'') \<and> contains (lower line) (lit ''keyword'')
      then st\<lparr>current_section := Some Matched\<rparr>
      else if contains (lower line) (lit ''missing'') \<and> contains (lower line) (lit ''keyword'')
      then st\<lparr>current_section := Some Missing\<rparr>
      else if contains (lower line) (lit ''suggestion'') \<or> contains (lower line) (lit ''recommend'')
      then st\<lparr>current_section := Some Suggestions\<rparr>
      else if startswith line bullet_literal \<or> startswith line (lit ''-'') \<or>
              startswith line (lit ''*'')
      then (let item = strip (drop 1 line) in
            if current_section st = Some Matched \<and> length (matched_keywords st) < 10
            then st\<lparr>matched_keywords := matched_keywords st @ [item]\<rparr>
            else if current_section st = Some Missing \<and> length (missing_keywords st) < 10
            then st\<lparr>missing_keywords := missing_keywords st @ [item]\<rparr>
            else if current_section st = Some Suggestions \<and> length (suggestions st) < 8
            then st\<lparr>suggestions := suggestions st @ [item]\<rparr>
            else st)
      else st)"

definition scan_init :: scan_state where
  "scan_init =
     \<lparr>current_section = None, matched_keywords = [], missing_keywords = [],
      suggestions = []\<rparr>"

definition scan_lines :: "scan_state \<Rightarrow> pystr list \<Rightarrow> scan_state" where
  "scan_lines st ls = foldl scan_line st ls"

definition default_suggestion :: pystr where
  "default_suggestion =
     lit ''Consider adding more relevant keywords from the job description''"

definition fallback_feedback :: pystr where
  "fallback_feedback =
     lit ''Analysis completed with fallback parsing. Results may be limited.''"

text \<open>
  \<open>parse_fallback_response\<close>. The only step that can raise is \<open>int\<close> on the digits of
  the match; it runs before the loop.
\<close>

definition parse_fallback_response :: "runtime \<Rightarrow> pystr \<Rightarrow> exn + dict" where
  "parse_fallback_response rt response_text =
     (case (case score_search rt response_text of
              Some ds \<Rightarrow> int_of_str rt ds
            | None \<Rightarrow> Inr 50) of
        Inl e \<Rightarrow> Inl e
      | Inr ats_score \<Rightarrow>
          (let st = scan_lines scan_init (split_lines response_text) in
           Inr [(lit ''ats_score'', PInt (min 100 (max 0 ats_score))),
                (lit ''matched_keywords'', PList (map PStr (matched_keywords st))),
                (lit ''missing_keywords'', PList (map PStr (missing_keywords st))),
                (lit ''suggestions'',
                   PList (map PStr (if suggestions st \<noteq> [] then suggestions st
                                    else [default_suggestion]))),
                (lit ''feedback'', PStr fallback_feedback)]))"

subsection \<open>Cleaning the response text\<close>

text \<open>
  Lines 95 to 117 of \<open>analyze_resume\<close>: strip, drop a reasoning block, drop the code
  fence, strip, cut to the span from the first \<open>{\<close> to the last \<open>}\<close>. The slice
  \<open>s[:-3]\<close> is only taken of a text that ends with the three-character fence.
\<close>

definition drop_thinking :: "pystr \<Rightarrow> pystr" where
  "drop_thinking s =
     (if contains s (lit ''<think>'')
      then (case find_str s (lit ''</think>'') of
              Some think_end \<Rightarrow> strip (drop (think_end + 8) s)
            | None \<Rightarrow> s)
      else s)"

definition drop_fence :: "pystr \<Rightarrow> pystr" where
  "drop_fence s =
     (let s1 = (if startswith s (lit ''```json'') then drop 7 s else s);
          s2 = (if startswith s1 (lit ''```'') then drop 3 s1 else s1);
          s3 = (if endswith s2 (lit ''```'') then take (length s2 - 3) s2 else s2)
      in strip s3)"

definition json_span :: "pystr \<Rightarrow> pystr" where
  "json_span s =
     (case (find_str s (lit ''{''), rfind_str s (lit ''}'')) of
        (Some json_start, Some json_end) \<Rightarrow>
          (if json_end > json_start
           then take (json_end + 1 - json_start) (drop json_start s)
           else s)
      | _ \<Rightarrow> s)"

definition clean_response :: "pystr \<Rightarrow> pystr" where
  "clean_response response_content =
     json_span (drop_fence (drop_thinking (strip response_content)))"

subsection \<open>Building the validated result\<close>

text \<open>Sequencing of steps that may raise: the first exception ends the evaluation.\<close>

definition and_then :: "exn + 'a \<Rightarrow> ('a \<Rightarrow> exn + 'b) \<Rightarrow> exn + 'b" where
  "and_then r f = (case r of Inl e \<Rightarrow> Inl e | Inr x \<Rightarrow> f x)"

fun map_raising :: "('a \<Rightarrow> exn + 'b) \<Rightarrow> 'a list \<Rightarrow> exn + 'b list" where
  "map_raising f [] = Inr []"
| "map_raising f (x # xs) =
     and_then (f x) (\<lambda>y. and_then (map_raising f xs) (\<lambda>ys. Inr (y # ys)))"

text \<open>The builtin \<open>int\<close>.\<close>

definition py_int :: "runtime \<Rightarrow> pyval \<Rightarrow> exn + int" where
  "py_int rt v =
     (case v of
        PInt n \<Rightarrow> Inr n
      | PBool b \<Rightarrow> Inr (if b then 1 else 0)
      | PFloat f \<Rightarrow> int_of_float rt f
      | PStr s \<Rightarrow> int_of_str rt s
      | _ \<Rightarrow> Inl TypeError)"

text \<open>
  \<open>v[:n]\<close>: a list and a string can be sliced; \<open>None\<close>, a number and a dictionary
  cannot.
\<close>

definition slice_to :: "nat \<Rightarrow> pyval \<Rightarrow> exn + pyval" where
  "slice_to n v =
     (case v of
        PList xs \<Rightarrow> Inr (PList (take n xs))
      | PStr s \<Rightarrow> Inr (PStr (take n s))
      | _ \<Rightarrow> Inl TypeError)"

text \<open>
  \<open>for x in v\<close>: the items of a list, the characters of a string, the keys of a
  dictionary.
\<close>

definition iterate :: "pyval \<Rightarrow> exn + pyval list" where
  "iterate v =
     (case v of
        PList xs \<Rightarrow> Inr xs
      | PStr s \<Rightarrow> Inr (map (\<lambda>c. PStr [c]) s)
      | PDict d \<Rightarrow> Inr (map (\<lambda>kv. PStr (fst kv)) d)
      | _ \<Rightarrow> Inl TypeError)"

text \<open>A value inside an f-string: a string as it is, anything else through \<open>str\<close>.\<close>

definition fmt :: "runtime \<Rightarrow> pyval \<Rightarrow> pystr" where
  "fmt rt v = (case v of PStr s \<Rightarrow> s | _ \<Rightarrow> str_of rt v)"

text \<open>
  One entry of the legacy list:
  \<open>f"{item.get('category', 'General')}: {item.get('solution', item.get('suggestion', str(item)))}"\<close>.
  An item that is no dictionary has no \<open>get\<close>.
\<close>

definition legacy_text :: "runtime \<Rightarrow> dict \<Rightarrow> pystr" where
  "legacy_text rt item =
     fmt rt (get_default item (lit ''category'') (PStr (lit ''General''))) @ lit '': '' @
     fmt rt (get_default item (lit ''solution'')
               (get_default item (lit ''suggestion'') (PStr (str_of rt (PDict item)))))"

definition legacy_suggestion :: "runtime \<Rightarrow> pyval \<Rightarrow> exn + pyval" where
  "legacy_suggestion rt item =
     (case item of
        PDict d \<Rightarrow> Inr (PStr (legacy_text rt d))
      | _ \<Rightarrow> Inl AttributeError)"

text \<open>
  Lines 124 to 138: the dictionary literal, its entries evaluated in order. A decoded
  value that is no dictionary has no \<open>get\<close>.
\<close>

definition validated_result :: "runtime \<Rightarrow> pyval \<Rightarrow> exn + dict" where
  "validated_result rt result =
     (case result of
        PDict d \<Rightarrow>
          and_then (py_int rt (get_default d (lit ''ats_score'') (PInt 0))) (\<lambda>score.
          and_then (slice_to 15 (get_default d (lit ''matched_keywords'') (PList []))) (\<lambda>matched.
          and_then (slice_to 15 (get_default d (lit ''missing_keywords'') (PList []))) (\<lambda>missing.
          and_then (slice_to 10 (get_default d (lit ''text_replacements'') (PList []))) (\<lambda>replacements.
          and_then (slice_to 10 (get_default d (lit ''detailed_suggestions'') (PList []))) (\<lambda>detailed.
          and_then (iterate (get_default d (lit ''detailed_suggestions'') (PList []))) (\<lambda>items.
          and_then (map_raising (legacy_suggestion rt) items) (\<lambda>legacy.
          Inr [(lit ''ats_score'', PInt (min 100 (max 0 score))),
               (lit ''score_summary'',
                  get_default d (lit ''score_summary'') (PStr (lit ''Analysis completed''))),
               (lit ''matched_keywords'', matched),
               (lit ''missing_keywords'', missing),
               (lit ''text_replacements'', replacements),
               (lit ''detailed_suggestions'', detailed),
               (lit ''score_breakdown'', get_default d (lit ''score_breakdown'') (PDict [])),
               (lit ''score_explanation'',
                  get_default d (lit ''score_explanation'')
                    (PStr (lit ''Score analysis not available.''))),
               (lit ''next_steps'',
                  get_default d (lit ''next_steps'') (PStr (lit ''Next steps not available.''))),
               (lit ''suggestions'', PList legacy),
               (lit ''feedback'',
                  get_default d (lit ''score_explanation'')
                    (PStr (lit ''Analysis completed successfully.'')))])))))))
      | _ \<Rightarrow> Inl AttributeError)"

text \<open>
  The inner \<open>try\<close>: \<open>json.loads\<close>, then the validated result; its handler runs the
  fallback parser on a \<open>JSONDecodeError\<close>. Any other exception leaves the block, and
  so does one that the fallback parser raises.
\<close>

definition normalize :: "runtime \<Rightarrow> pystr \<Rightarrow> exn + dict" where
  "normalize rt response_content =
     (let cleaned = clean_response response_content in
      case and_then (json_loads rt cleaned) (validated_result rt) of
        Inl JSONDecodeError \<Rightarrow> parse_fallback_response rt cleaned
      | r \<Rightarrow> r)"

subsection \<open>\<open>analyze_resume\<close>\<close>

text \<open>The dictionary of the outer handler (lines 148 to 181).\<close>

definition sample_result :: dict where
  "sample_result =
     [(lit ''ats_score'', PInt 65),
      (lit ''score_summary'',
         PStr (lit ''Analysis completed with fallback data due to API issues'')),
      (lit ''matched_keywords'',
         PList [PStr (lit ''Python''), PStr (lit ''Machine Learning''),
                PStr (lit ''Data Analysis'')]),
      (lit ''missing_keywords'',
         PList [PStr (lit ''AWS''), PStr (lit ''Docker''), PStr (lit ''Kubernetes'')]),
      (lit ''text_replacements'',
         PList [PDict
           [(lit ''section'', PStr (lit ''Experience'')),
            (lit ''original_text'', PStr (lit ''Worked on projects'')),
            (lit ''improved_text'',
               PStr (lit ''Developed and deployed 3+ projects using Python and machine learning frameworks'')),
            (lit ''reason'',
               PStr (lit ''Added specific technologies and quantified achievements''))]]),
      (lit ''detailed_suggestions'',
         PList [PDict
           [(lit ''priority'', PStr (lit ''High'')),
            (lit ''category'', PStr (lit ''Keywords'')),
            (lit ''issue'', PStr (lit ''Missing key technologies from job description'')),
            (lit ''solution'',
               PStr (lit ''Add cloud technologies and DevOps tools to skills section'')),
            (lit ''expected_impact'',
               PStr (lit ''Improve ATS matching by 15-20 points''))]]),
      (lit ''score_breakdown'',
         PDict [(lit ''keywords'', PInt 15), (lit ''experience'', PInt 18),
                (lit ''skills'', PInt 14), (lit ''education'', PInt 10),
                (lit ''formatting'', PInt 8)]),
      (lit ''score_explanation'',
         PStr (lit ''Fallback analysis due to API issues. Keywords (15/25): Basic coverage. Experience (18/25): Relevant but needs metrics. Skills (14/20): Good foundation. Education (10/15): Adequate. Formatting (8/15): Could be improved.'')),
      (lit ''next_steps'',
         PStr (lit ''1. Add missing keywords from job description. 2. Quantify achievements with specific numbers. 3. Improve resume formatting and structure.'')),
      (lit ''suggestions'',
         PList [PStr (lit ''Add more relevant keywords''),
                PStr (lit ''Quantify your achievements''),
                PStr (lit ''Improve formatting'')]),
      (lit ''feedback'',
         PStr (lit ''Analysis completed with fallback data due to technical issues.''))]"

text \<open>
  \<open>analyze_resume\<close> from the API call on. The outcome of the call and of reading
  \<open>completion.choices[0].message.content\<close> is its argument: \<open>Inl e\<close> when that raised
  the exception \<open>e\<close>, \<open>Inr None\<close> when the message has no content
  (\<open>None.strip()\<close> then raises), \<open>Inr (Some text)\<close> otherwise. The prompt only reaches
  the result through the call. Everything from the call to the inner \<open>try\<close> stands
  inside the outer \<open>try\<close>, whose \<open>except Exception\<close> returns the sample.
\<close>

definition analyze_resume :: "runtime \<Rightarrow> exn + pystr option \<Rightarrow> dict" where
  "analyze_resume rt completion =
     (case completion of
        Inl e \<Rightarrow> sample_result
      | Inr None \<Rightarrow> sample_result
      | Inr (Some response_content) \<Rightarrow>
          (case normalize rt response_content of
             Inl e \<Rightarrow> sample_result
           | Inr result \<Rightarrow> result))"

section \<open>The plain-text report (\<open>generate_text_report\<close> of \<open>app.py\<close>)\<close>

text \<open>
  The function works on whatever dictionary it is given, so the model follows Python's
  dynamic typing: truth values, iteration and membership are defined on every value,
  and raise where Python does.
\<close>

definition truthy :: "runtime \<Rightarrow> pyval \<Rightarrow> bool" where
  "truthy rt v =
     (case v of
        PNone \<Rightarrow> False
      | PBool b \<Rightarrow> b
      | PInt n \<Rightarrow> n \<noteq> 0
      | PFloat f \<Rightarrow> float_truthy rt f
      | PStr s \<Rightarrow> s \<noteq> []
      | PList xs \<Rightarrow> xs \<noteq> []
      | PDict d \<Rightarrow> d \<noteq> [])"

text \<open>\<open>p in v\<close> for a string \<open>p\<close>.\<close>

definition str_in :: "pystr \<Rightarrow> pyval \<Rightarrow> exn + bool" where
  "str_in p v =
     (case v of
        PStr s \<Rightarrow> Inr (contains s p)
      | PList xs \<Rightarrow> Inr (PStr p \<in> set xs)
      | PDict d \<Rightarrow> Inr (p \<in> set (map fst d))
      | _ \<Rightarrow> Inl TypeError)"

text \<open>\<open>x.get\<close> exists on a dictionary only.\<close>

definition as_dict :: "pyval \<Rightarrow> exn + dict" where
  "as_dict v = (case v of PDict d \<Rightarrow> Inr d | _ \<Rightarrow> Inl AttributeError)"

text \<open>
  \<open>re.split(r'\d+\.', s)\<close>: the text between the matches, a match being a run of digits
  that a full stop follows (a full stop is no digit). The arguments are the piece being
  read, the digits read since it that may yet start a match, and the text to come.
\<close>

fun re_split_numbered :: "(pychar \<Rightarrow> bool) \<Rightarrow> pystr \<Rightarrow> pystr \<Rightarrow> pystr \<Rightarrow> pystr list" where
  "re_split_numbered dg piece run [] = [piece @ run]"
| "re_split_numbered dg piece run (c # cs) =
     (if dg c then re_split_numbered dg piece (run @ [c]) cs
      else if c = 46 \<and> run \<noteq> [] then piece # re_split_numbered dg [] [] cs
      else re_split_numbered dg (piece @ run @ [c]) [] cs)"

text \<open>The bullet of the report is U+2022; the section titles begin with an emoji.\<close>

definition bullet :: pystr where
  "bullet = [8226, 32]"

definition score_lines :: "runtime \<Rightarrow> dict \<Rightarrow> pyval list" where
  "score_lines rt result =
     [PStr ([128202] @ lit '' Overall ATS Score''),
      PStr (fmt rt (get_default result (lit ''ats_score'') (PInt 0)) @ lit ''/100''),
      PStr (fmt rt (get_default result (lit ''score_summary'')
                      (PStr (lit ''Analysis completed'')))),
      PStr []]"

text \<open>
  The two keyword sections differ in their title, their key and the line written for an
  empty list.
\<close>

definition keyword_lines :: "runtime \<Rightarrow> pystr \<Rightarrow> pyval \<Rightarrow> pystr \<Rightarrow> exn + pyval list" where
  "keyword_lines rt title keywords placeholder =
     (if truthy rt keywords
      then and_then (iterate keywords) (\<lambda>ks.
             Inr ([PStr title] @ map (\<lambda>keyword. PStr (bullet @ fmt rt keyword)) ks @ [PStr []]))
      else Inr [PStr title, PStr (bullet @ placeholder), PStr []])"

definition replacement_lines :: "runtime \<Rightarrow> nat \<times> pyval \<Rightarrow> exn + pyval list" where
  "replacement_lines rt ir =
     and_then (as_dict (snd ir)) (\<lambda>replacement.
       Inr [PStr (fmt rt (PInt (int (fst ir))) @ lit ''. Section: '' @
                  fmt rt (get_default replacement (lit ''section'') (PStr (lit ''Section'')))),
            PStr (lit ''   Current Text: '' @
                  fmt rt (get_default replacement (lit ''original_text'')
                            (PStr (lit ''Original text not provided'')))),
            PStr (lit ''   Improved Text: '' @
                  fmt rt (get_default replacement (lit ''improved_text'')
                            (PStr (lit ''Improved text not provided'')))),
            PStr (lit ''   Why this helps: '' @
                  fmt rt (get_default replacement (lit ''reason'')
                            (PStr (lit ''Improvement reason not provided'')))),
            PStr []])"

definition text_replacement_lines :: "runtime \<Rightarrow> pyval \<Rightarrow> exn + pyval list" where
  "text_replacement_lines rt text_replacements =
     (if truthy rt text_replacements
      then and_then (iterate text_replacements) (\<lambda>rs.
           and_then (map_raising (replacement_lines rt) (zip [1 ..< Suc (length rs)] rs)) (\<lambda>ls.
             Inr ([PStr ([9999, 65039] @ lit '' Text Replacements (Resume Improvements)'')] @
                  concat ls)))
      else Inr [])"

definition suggestion_lines :: "runtime \<Rightarrow> dict \<Rightarrow> pyval list" where
  "suggestion_lines rt suggestion =
     [PStr (bullet @ lit ''Category: '' @
            fmt rt (get_default suggestion (lit ''category'') (PStr (lit ''General'')))),
      PStr (lit ''  Issue: '' @
            fmt rt (get_default suggestion (lit ''issue'') (PStr (lit ''Issue not specified'')))),
      PStr (lit ''  Suggested Fix: '' @
            fmt rt (get_default suggestion (lit ''solution'')
                      (PStr (lit ''Solution not provided'')))),
      PStr (lit ''  Expected Impact: '' @
            fmt rt (get_default suggestion (lit ''expected_impact'')
                      (PStr (lit ''Impact not specified'')))),
      PStr []]"

definition priority_group_lines :: "runtime \<Rightarrow> dict list \<Rightarrow> pystr \<Rightarrow> pystr \<Rightarrow> pyval list" where
  "priority_group_lines rt detailed priority priority_name =
     (let priority_group = filter (\<lambda>s. get s (lit ''priority'') = Some (PStr priority)) detailed
      in if priority_group \<noteq> []
         then [PStr (priority_name @ lit '':'')] @ concat (map (suggestion_lines rt) priority_group)
         else [])"

text \<open>
  The three comprehensions read \<open>s.get('priority')\<close> of every item, so the first of them
  raises at the first item that is no dictionary.
\<close>

definition detailed_suggestion_lines :: "runtime \<Rightarrow> pyval \<Rightarrow> exn + pyval list" where
  "detailed_suggestion_lines rt detailed_suggestions =
     (if truthy rt detailed_suggestions
      then and_then (iterate detailed_suggestions) (\<lambda>items.
           and_then (map_raising as_dict items) (\<lambda>ds.
             Inr ([PStr ([127919] @ lit '' Detailed Suggestions'')] @
                  priority_group_lines rt ds (lit ''High'') (lit ''High Priority'') @
                  priority_group_lines rt ds (lit ''Medium'') (lit ''Medium Priority'') @
                  priority_group_lines rt ds (lit ''Low'') (lit ''Low Priority''))))
      else Inr [])"

text \<open>The explanation is appended as it is, a string or not.\<close>

definition explanation_lines :: "runtime \<Rightarrow> pyval \<Rightarrow> pyval list" where
  "explanation_lines rt score_explanation =
     (if truthy rt score_explanation
      then [PStr ([128200] @ lit '' Score Breakdown Explanation''), score_explanation, PStr []]
      else [])"

definition step_lines :: "runtime \<Rightarrow> pystr \<Rightarrow> pyval list" where
  "step_lines rt next_steps =
     map (\<lambda>clean_step. PStr (bullet @ clean_step))
       (filter (\<lambda>clean_step. clean_step \<noteq> [] \<and> length clean_step > 3)
          (map strip (re_split_numbered (re_digit rt) [] [] next_steps)))"

definition next_steps_lines :: "runtime \<Rightarrow> pyval \<Rightarrow> exn + pyval list" where
  "next_steps_lines rt next_steps =
     (if truthy rt next_steps
      then and_then (str_in (lit ''1.'') next_steps) (\<lambda>has1.
           and_then (if has1 then str_in (lit ''2.'') next_steps else Inr False) (\<lambda>numbered.
           and_then (if numbered
                     then (case next_steps of
                             PStr s \<Rightarrow> Inr (step_lines rt s)
                           | _ \<Rightarrow> Inl TypeError)
                     else Inr [next_steps]) (\<lambda>ls.
             Inr ([PStr ([128640] @ lit '' Next Steps'')] @ ls @ [PStr []]))))
      else Inr [])"

text \<open>The list \<open>report\<close> as it stands before the final \<open>join\<close>.\<close>

definition report_lines :: "runtime \<Rightarrow> dict \<Rightarrow> exn + pyval list" where
  "report_lines rt result =
     and_then (keyword_lines rt ([9989] @ lit '' Matched Keywords'')
                 (get_default result (lit ''matched_keywords'') (PList []))
                 (lit ''No specific matched keywords identified'')) (\<lambda>matched.
     and_then (keyword_lines rt ([10060] @ lit '' Missing Critical Keywords'')
                 (get_default result (lit ''missing_keywords'') (PList []))
                 (lit ''No missing keywords identified'')) (\<lambda>missing.
     and_then (text_replacement_lines rt
                 (get_default result (lit ''text_replacements'') (PList []))) (\<lambda>replacements.
     and_then (detailed_suggestion_lines rt
                 (get_default result (lit ''detailed_suggestions'') (PList []))) (\<lambda>detailed.
     and_then (next_steps_lines rt (get_default result (lit ''next_steps'') (PStr []))) (\<lambda>steps.
       Inr (score_lines rt result @ matched @ missing @ replacements @ detailed @
            explanation_lines rt (get_default result (lit ''score_explanation'') (PStr [])) @
            steps))))))"

text \<open>\<open>"\n".join(report)\<close> raises on an item that is no string.\<close>

definition as_str :: "pyval \<Rightarrow> exn + pystr" where
  "as_str v = (case v of PStr s \<Rightarrow> Inr s | _ \<Rightarrow> Inl TypeError)"

definition generate_text_report :: "runtime \<Rightarrow> dict \<Rightarrow> exn + pystr" where
  "generate_text_report rt result =
     and_then (report_lines rt result) (\<lambda>report.
     and_then (map_raising as_str report) (\<lambda>ls. Inr (join_lines ls)))"

section \<open>The text extractor (\<open>utils/parser.py\<close>)\<close>

text \<open>
  An uploaded file is its name and the bytes that \<open>read()\<close> returns; the file is handed
  over unread, so a second \<open>read()\<close> after \<open>seek(0)\<close> returns the same bytes.
\<close>

record uploaded_file =
  name :: pystr
  data :: "8 word list"

text \<open>
  The PDF and DOCX libraries are not part of the repository. Each is present or not
  (\<open>None\<close>: the \<open>import\<close> fails), and when present it turns the bytes into the text of
  the pages, or into the paragraphs and the tables (rows of cells) of the document, or
  raises. An exception of a library is an \<open>ImportError\<close> or carries a message.
\<close>

datatype lib_error = Import_error | Lib_error pystr

record docx_document =
  paragraphs :: "pystr list"
  tables :: "pystr list list list"

record decoders =
  pdf_reader :: "(8 word list \<Rightarrow> lib_error + pystr list) option"
  docx_reader :: "(8 word list \<Rightarrow> lib_error + docx_document) option"

datatype format = PDF | DOCX

text \<open>
  The exceptions of the extractor, by the statement that raises them:
  \<^item> \<open>No_file_uploaded\<close>: \<open>ValueError("No file uploaded")\<close>;
  \<^item> \<open>Unsupported_format ext\<close>: \<open>ValueError(f"Unsupported file format: {ext}")\<close>;
  \<^item> \<open>Library_required fmt\<close>: the \<open>ValueError\<close> that names the library to install;
  \<^item> \<open>No_text_extracted fmt\<close>: \<open>Exception("No text could be extracted from the ...")\<close>;
  \<^item> \<open>Library_raised e\<close>: the exception \<open>e\<close> of the PDF or DOCX library;
  \<^item> \<open>Failed_to_process fmt e\<close>: \<open>Exception(f"Failed to process PDF: {str(e)}")\<close> and its
    DOCX twin;
  \<^item> \<open>Error_processing ext e\<close>:
    \<open>Exception(f"Error processing {ext.upper()} file: {str(e)}")\<close>.
\<close>

datatype failure =
    No_file_uploaded
  | Unsupported_format pystr
  | Library_required format
  | No_text_extracted format
  | Library_raised lib_error
  | Failed_to_process format failure
  | Error_processing pystr failure

text \<open>
  \<open>bytes.decode('utf-8')\<close>: strict UTF-8, \<open>None\<close> for \<open>UnicodeDecodeError\<close>. Overlong
  forms, surrogates and code points above U+10FFFF are errors.
\<close>

definition continuation :: "nat \<Rightarrow> bool" where
  "continuation b \<longleftrightarrow> 128 \<le> b \<and> b \<le> 191"

fun utf8 :: "nat list \<Rightarrow> pystr option" where
  "utf8 [] = Some []"
| "utf8 (b0 # bs) =
     (if b0 < 128 then map_option (\<lambda>r. b0 # r) (utf8 bs)
      else if 194 \<le> b0 \<and> b0 \<le> 223 then
        (case bs of
           b1 # r1 \<Rightarrow>
             (if continuation b1
              then map_option (\<lambda>r. ((b0 - 192) * 64 + (b1 - 128)) # r) (utf8 r1)
              else None)
         | _ \<Rightarrow> None)
      else if 224 \<le> b0 \<and> b0 \<le> 239 then
        (case bs of
           b1 # b2 # r2 \<Rightarrow>
             (if continuation b1 \<and> continuation b2 \<and>
                 (if b0 = 224 then 160 \<le> b1 else True) \<and>
                 (if b0 = 237 then b1 \<le> 159 else True)
              then map_option
                     (\<lambda>r. ((b0 - 224) * 4096 + (b1 - 128) * 64 + (b2 - 128)) # r) (utf8 r2)
              else None)
         | _ \<Rightarrow> None)
      else if 240 \<le> b0 \<and> b0 \<le> 244 then
        (case bs of
           b1 # b2 # b3 # r3 \<Rightarrow>
             (if continuation b1 \<and> continuation b2 \<and> continuation b3 \<and>
                 (if b0 = 240 then 144 \<le> b1 else True) \<and>
                 (if b0 = 244 then b1 \<le> 143 else True)
              then map_option
                     (\<lambda>r. ((b0 - 240) * 262144 + (b1 - 128) * 4096 + (b2 - 128) * 64 +
                           (b3 - 128)) # r) (utf8 r3)
              else None)
         | _ \<Rightarrow> None)
      else None)"

definition decode_utf8 :: "8 word list \<Rightarrow> pystr option" where
  "decode_utf8 bs = utf8 (map unat bs)"

text \<open>\<open>bytes.decode('latin-1', errors='ignore')\<close>: every byte is its code point.\<close>

definition decode_latin1 :: "8 word list \<Rightarrow> pystr" where
  "decode_latin1 bs = map unat bs"

text \<open>
  \<open>re.sub\<close> of a pattern \<open>c+\<close> by one space: every maximal run of characters of the class
  becomes a single space.
\<close>

fun collapse_runs :: "(pychar \<Rightarrow> bool) \<Rightarrow> pystr \<Rightarrow> pystr" where
  "collapse_runs cls [] = []"
| "collapse_runs cls [c] = (if cls c then [32] else [c])"
| "collapse_runs cls (c # d # cs) =
     (if cls c then (if cls d then collapse_runs cls (d # cs) else 32 # collapse_runs cls (d # cs))
      else c # collapse_runs cls (d # cs))"

text \<open>
  The characters that the second substitution of \<open>clean_text\<close> keeps: \<open>\w\<close>, \<open>\s\<close> and
  the punctuation of the character set, of which the backslash, the two quotes and the
  backquote are written by their code points.
\<close>

definition kept_char :: "runtime \<Rightarrow> pychar \<Rightarrow> bool" where
  "kept_char rt c \<longleftrightarrow>
     is_space c \<or> re_word rt c \<or> c \<in> set (lit ''-.,;:()[]@#%&*+=<>?/|~'') \<or>
     c = 92 \<or> c = 34 \<or> c = 39 \<or> c = 96"

definition clean_text :: "runtime \<Rightarrow> pystr \<Rightarrow> pystr" where
  "clean_text rt text =
     (if text = [] then []
      else (let t1 = collapse_runs is_space text;
                t2 = map (\<lambda>c. if kept_char rt c then c else 32) t1;
                t3 = collapse_runs (\<lambda>c. c = 32) t2
            in strip t3))"

definition extract_text_from_txt :: "runtime \<Rightarrow> uploaded_file \<Rightarrow> failure + pystr" where
  "extract_text_from_txt rt f =
     (let content = (case decode_utf8 (data f) of
                       Some s \<Rightarrow> s
                     | None \<Rightarrow> decode_latin1 (data f))
      in Inr (clean_text rt content))"

text \<open>
  \<open>extract_text_from_pdf\<close>. Without a library the \<open>ValueError\<close> is raised before the
  \<open>try\<close>; inside it, every exception, the one for an empty text included, is wrapped.
\<close>

definition extract_text_from_pdf :: "decoders \<Rightarrow> runtime \<Rightarrow> uploaded_file \<Rightarrow> failure + pystr" where
  "extract_text_from_pdf env rt f =
     (case pdf_reader env of
        None \<Rightarrow> Inl (Library_required PDF)
      | Some reader \<Rightarrow>
          (case reader (data f) of
             Inl e \<Rightarrow> Inl (Failed_to_process PDF (Library_raised e))
           | Inr text_content \<Rightarrow>
               (let full_text = join_lines text_content in
                if strip full_text = []
                then Inl (Failed_to_process PDF (No_text_extracted PDF))
                else Inr (clean_text rt full_text))))"

text \<open>
  \<open>extract_text_from_docx\<close>. The paragraphs, then the cells of the tables row by row,
  each kept when it is not blank. An \<open>ImportError\<close> inside the \<open>try\<close> becomes the
  \<open>ValueError\<close> for the missing library; any other exception is raised again as it is
  when its message holds \<open>python-docx\<close>, and wrapped otherwise.
\<close>

definition extract_text_from_docx :: "decoders \<Rightarrow> runtime \<Rightarrow> uploaded_file \<Rightarrow> failure + pystr" where
  "extract_text_from_docx env rt f =
     (case docx_reader env of
        None \<Rightarrow> Inl (Library_required DOCX)
      | Some reader \<Rightarrow>
          (case reader (data f) of
             Inl Import_error \<Rightarrow> Inl (Library_required DOCX)
           | Inl (Lib_error msg) \<Rightarrow>
               (if contains msg (lit ''python-docx'') then Inl (Library_raised (Lib_error msg))
                else Inl (Failed_to_process DOCX (Library_raised (Lib_error msg))))
           | Inr doc \<Rightarrow>
               (let text_content =
                      filter (\<lambda>t. strip t \<noteq> []) (paragraphs doc) @
                      filter (\<lambda>t. strip t \<noteq> []) (concat (concat (tables doc)));
                    full_text = join_lines text_content
                in if strip full_text = []
                   then Inl (Failed_to_process DOCX (No_text_extracted DOCX))
                   else Inr (clean_text rt full_text))))"

text \<open>\<open>uploaded_file.name.lower().split('.')[-1]\<close>.\<close>

definition file_extension :: "pystr \<Rightarrow> pystr" where
  "file_extension file_name = last (split_on 46 (lower file_name))"

text \<open>
  \<open>extract_text\<close>. \<open>None\<close> is no file. The dispatch stands inside a \<open>try\<close> whose handler
  wraps every exception, the \<open>ValueError\<close> of the last branch included.
\<close>

definition extract_text :: "decoders \<Rightarrow> runtime \<Rightarrow> uploaded_file option \<Rightarrow> failure + pystr" where
  "extract_text env rt uploaded =
     (case uploaded of
        None \<Rightarrow> Inl No_file_uploaded
      | Some f \<Rightarrow>
          (let ext = file_extension (name f) in
           case (if ext = lit ''txt'' then extract_text_from_txt rt f
                 else if ext = lit ''pdf'' then extract_text_from_pdf env rt f
                 else if ext = lit ''docx'' \<or> ext = lit ''doc''
                 then extract_text_from_docx env rt f
                 else Inl (Unsupported_format ext)) of
             Inl e \<Rightarrow> Inl (Error_processing ext e)
           | Inr text \<Rightarrow> Inr text))"

section \<open>An interpreter for the examples\<close>

text \<open>
  The examples below are evaluated with the ASCII digits as \<open>\d\<close>, the ASCII letters,
  digits and underscore as \<open>\w\<close>, \<open>int\<close> reading an optional sign and ASCII digits, and
  \<open>str\<close> writing an integer in decimal. On the texts of the examples this is what
  CPython does. No float, and no list or dictionary inside an f-string, occurs in the
  examples, so this instance gives them arbitrary answers. Its JSON decoder rejects
  every text; an example that needs a decoded document states which one.
\<close>

definition ascii_digit :: "pychar \<Rightarrow> bool" where
  "ascii_digit c \<longleftrightarrow> 48 \<le> c \<and> c \<le> 57"

definition ascii_word :: "pychar \<Rightarrow> bool" where
  "ascii_word c \<longleftrightarrow>
     ascii_digit c \<or> (65 \<le> c \<and> c \<le> 90) \<or> (97 \<le> c \<and> c \<le> 122) \<or> c = 95"

definition digits_value :: "pystr \<Rightarrow> int" where
  "digits_value ds = foldl (\<lambda>acc c. 10 * acc + (int c - 48)) 0 ds"

definition ascii_int :: "pystr \<Rightarrow> exn + int" where
  "ascii_int s =
     (case strip s of
        [] \<Rightarrow> Inl ValueError
      | c # cs \<Rightarrow>
          (if (c = 45 \<or> c = 43) \<and> cs \<noteq> [] \<and> list_all ascii_digit cs
           then Inr ((if c = 45 then - 1 else 1) * digits_value cs)
           else if list_all ascii_digit (c # cs) then Inr (digits_value (c # cs))
           else Inl ValueError))"

fun nat_digits :: "nat \<Rightarrow> nat \<Rightarrow> pystr \<Rightarrow> pystr" where
  "nat_digits 0 n acc = acc"
| "nat_digits (Suc fuel) n acc =
     (if n < 10 then (48 + n) # acc
      else nat_digits fuel (n div 10) ((48 + n mod 10) # acc))"

definition int_str :: "int \<Rightarrow> pystr" where
  "int_str n =
     (if n < 0 then 45 # nat_digits (Suc (nat (- n))) (nat (- n)) []
      else nat_digits (Suc (nat n)) (nat n) [])"

definition ascii_str :: "pyval \<Rightarrow> pystr" where
  "ascii_str v =
     (case v of
        PInt n \<Rightarrow> int_str n
      | PBool b \<Rightarrow> (if b then lit ''True'' else lit ''False'')
      | PNone \<Rightarrow> lit ''None''
      | PStr s \<Rightarrow> s
      | _ \<Rightarrow> lit ''?'')"

definition ascii_runtime :: runtime where
  "ascii_runtime =
     \<lparr>json_loads = (\<lambda>s. Inl JSONDecodeError),
      int_of_str = ascii_int,
      int_of_float = (\<lambda>f. Inl ValueError),
      float_truthy = (\<lambda>f. True),
      str_of = ascii_str,
      re_digit = ascii_digit,
      re_word = ascii_word\<rparr>"

text \<open>The same interpreter with a decoder that knows one document.\<close>

definition knowing :: "pystr \<Rightarrow> pyval \<Rightarrow> runtime" where
  "knowing doc v =
     ascii_runtime\<lparr>json_loads := (\<lambda>s. if s = doc then Inr v else Inl JSONDecodeError)\<rparr>"

section \<open>Notions used in the statements\<close>


text \<open>
  The loop of \<open>parse_fallback_response\<close> read line by line: the section that a line
  switches to (the first three branches), the test of the fourth branch as the source
  has it, the same test for the dash and the star alone, and the item that is
  collected.
\<close>

definition switches_to :: "pystr \<Rightarrow> section_name option" where
  "switches_to raw =
     (let line = lower (strip raw) in
      if contains line (lit ''matched'') \<and> contains line (lit ''keyword'') then Some Matched
      else if contains line (lit ''missing'') \<and> contains line (lit ''keyword'') then Some Missing
      else if contains line (lit ''suggestion'') \<or> contains line (lit ''recommend'')
      then Some Suggestions
      else None)"

definition source_marked :: "pystr \<Rightarrow> bool" where
  "source_marked raw \<longleftrightarrow>
     startswith (strip raw) bullet_literal \<or> startswith (strip raw) (lit ''-'') \<or>
     startswith (strip raw) (lit ''*'')"


definition item_of :: "pystr \<Rightarrow> pystr" where
  "item_of raw = strip (drop 1 (strip raw))"



text \<open>
  A decoded object matches the schema of the prompt, as far as the normalizer depends
  on it, when its score, if present, is an integer, its four lists, if present, are
  lists, and its detailed suggestions are objects. \<open>list_field\<close> and \<open>int_field\<close> read
  such an object, with the defaults of the source for an absent key.
\<close>

definition absent_or_list :: "dict \<Rightarrow> pystr \<Rightarrow> bool" where
  "absent_or_list d k = (case get d k of None \<Rightarrow> True | Some (PList xs) \<Rightarrow> True | Some _ \<Rightarrow> False)"

definition list_field :: "dict \<Rightarrow> pystr \<Rightarrow> pyval list" where
  "list_field d k = (case get d k of Some (PList xs) \<Rightarrow> xs | _ \<Rightarrow> [])"

definition is_dict :: "pyval \<Rightarrow> bool" where
  "is_dict v = (case v of PDict d \<Rightarrow> True | _ \<Rightarrow> False)"

definition matches_schema :: "dict \<Rightarrow> bool" where
  "matches_schema d \<longleftrightarrow>
     (case get d (lit ''ats_score'') of None \<Rightarrow> True | Some (PInt n) \<Rightarrow> True | Some _ \<Rightarrow> False) \<and>
     absent_or_list d (lit ''matched_keywords'') \<and>
     absent_or_list d (lit ''missing_keywords'') \<and>
     absent_or_list d (lit ''text_replacements'') \<and>
     absent_or_list d (lit ''detailed_suggestions'') \<and>
     list_all is_dict (list_field d (lit ''detailed_suggestions''))"

definition int_field :: "dict \<Rightarrow> pystr \<Rightarrow> int" where
  "int_field d k = (case get d k of Some (PInt n) \<Rightarrow> n | _ \<Rightarrow> 0)"

text \<open>The entry of the legacy list for one detailed suggestion.\<close>

definition legacy_entry :: "runtime \<Rightarrow> pyval \<Rightarrow> pyval" where
  "legacy_entry rt item = (case item of PDict d \<Rightarrow> PStr (legacy_text rt d) | _ \<Rightarrow> PNone)"

text \<open>
  The first lines of the report, as strings: the score section and the two keyword
  sections, for a result whose keyword fields are lists.
\<close>

definition keyword_block :: "runtime \<Rightarrow> pystr \<Rightarrow> pyval list \<Rightarrow> pystr \<Rightarrow> pystr list" where
  "keyword_block rt title keywords placeholder =
     [title] @
     (if keywords = [] then [bullet @ placeholder]
      else map (\<lambda>keyword. bullet @ fmt rt keyword) keywords) @
     [[]]"

definition report_head :: "runtime \<Rightarrow> dict \<Rightarrow> pystr list" where
  "report_head rt result =
     [[128202] @ lit '' Overall ATS Score'',
      fmt rt (get_default result (lit ''ats_score'') (PInt 0)) @ lit ''/100'',
      fmt rt (get_default result (lit ''score_summary'') (PStr (lit ''Analysis completed''))),
      []] @
     keyword_block rt ([9989] @ lit '' Matched Keywords'')
       (list_field result (lit ''matched_keywords''))
       (lit ''No specific matched keywords identified'') @
     keyword_block rt ([10060] @ lit '' Missing Critical Keywords'')
       (list_field result (lit ''missing_keywords''))
       (lit ''No missing keywords identified'')"

text \<open>
  A result as the fallback parser returns it, and the report that
  \<open>generate_text_report\<close> writes for it.
\<close>

definition example_result :: dict where
  "example_result =
     [(lit ''ats_score'', PInt 80),
      (lit ''matched_keywords'', PList [PStr (lit ''Python'')]),
      (lit ''missing_keywords'', PList [PStr (lit ''AWS'')]),
      (lit ''suggestions'', PList [PStr default_suggestion]),
      (lit ''feedback'', PStr fallback_feedback)]"

definition example_report :: pystr where
  "example_report =
     join_lines
       [[128202] @ lit '' Overall ATS Score'',
        lit ''80/100'',
        lit ''Analysis completed'',
        [],
        [9989] @ lit '' Matched Keywords'',
        [8226, 32] @ lit ''Python'',
        [],
        [10060] @ lit '' Missing Critical Keywords'',
        [8226, 32] @ lit ''AWS'',
        []]"

section \<open>Properties of the normalizer\<close>







lemma scan_line_alt:
  "scan_line st raw =
     (case switches_to raw of
        Some m \<Rightarrow> st\<lparr>current_section := Some m\<rparr>
      | None \<Rightarrow>
          (if source_marked raw
           then (if current_section st = Some Matched \<and> length (matched_keywords st) < 10
                 then st\<lparr>matched_keywords := matched_keywords st @ [item_of raw]\<rparr>
                 else if current_section st = Some Missing \<and> length (missing_keywords st) < 10
                 then st\<lparr>missing_keywords := missing_keywords st @ [item_of raw]\<rparr>
                 else if current_section st = Some Suggestions \<and> length (suggestions st) < 8
                 then st\<lparr>suggestions := suggestions st @ [item_of raw]\<rparr>
                 else st)
           else st))"
  by (simp add: scan_line_def switches_to_def source_marked_def item_of_def Let_def)

lemma scan_lines_Nil: "scan_lines st [] = st"
  by (simp add: scan_lines_def)

lemma scan_lines_Cons: "scan_lines st (l # ls) = scan_lines (scan_line st l) ls"
  by (simp add: scan_lines_def)

lemma scan_lines_append: "scan_lines st (xs @ ys) = scan_lines (scan_lines st xs) ys"
  by (simp add: scan_lines_def)





text \<open>
  C10. Whatever exception the call to the model's API raises, \<open>analyze_resume\<close> does
  not pass it on and does not call again: it returns the hardcoded sample result.
\<close>

theorem analyze_resume_api_failure:
  "analyze_resume rt (Inl e) = sample_result"
  by (simp add: analyze_resume_def)

lemmas parse_eval = parse_fallback_response_def score_match_at_def ci_match_def scan_lines_def scan_line_def
  strip_def is_space_def contains_def startswith_def lower_def lower_char_def split_lines_def scan_init_def
  bullet_literal_def lit_def Let_def










lemma map_raising_legacy:
  "list_all is_dict items \<Longrightarrow>
     map_raising (legacy_suggestion rt) items = Inr (map (legacy_entry rt) items)"
  by (induction items)
     (auto simp add: and_then_def legacy_suggestion_def legacy_entry_def is_dict_def split: pyval.splits)

lemma slice_field:
  "absent_or_list d k \<Longrightarrow> slice_to n (get_default d k (PList [])) = Inr (PList (take n (list_field d k)))"
  by (auto simp add: absent_or_list_def slice_to_def get_default_def get_def list_field_def
      split: option.splits pyval.splits)

lemma iterate_field:
  "absent_or_list d k \<Longrightarrow> iterate (get_default d k (PList [])) = Inr (list_field d k)"
  by (auto simp add: absent_or_list_def iterate_def get_default_def get_def list_field_def
      split: option.splits pyval.splits)

lemma int_score_field:
  "(case get d k of None \<Rightarrow> True | Some (PInt n) \<Rightarrow> True | Some _ \<Rightarrow> False) \<Longrightarrow>
     py_int rt (get_default d k (PInt 0)) = Inr (int_field d k)"
  by (auto simp add: py_int_def get_default_def get_def int_field_def split: option.splits pyval.splits)

lemma validated_schema:
  assumes "matches_schema d"
  shows "validated_result rt (PDict d) =
     Inr [(lit ''ats_score'', PInt (min 100 (max 0 (int_field d (lit ''ats_score''))))),
          (lit ''score_summary'',
             get_default d (lit ''score_summary'') (PStr (lit ''Analysis completed''))),
          (lit ''matched_keywords'', PList (take 15 (list_field d (lit ''matched_keywords'')))),
          (lit ''missing_keywords'', PList (take 15 (list_field d (lit ''missing_keywords'')))),
          (lit ''text_replacements'', PList (take 10 (list_field d (lit ''text_replacements'')))),
          (lit ''detailed_suggestions'',
             PList (take 10 (list_field d (lit ''detailed_suggestions'')))),
          (lit ''score_breakdown'', get_default d (lit ''score_breakdown'') (PDict [])),
          (lit ''score_explanation'',
             get_default d (lit ''score_explanation'')
               (PStr (lit ''Score analysis not available.''))),
          (lit ''next_steps'',
             get_default d (lit ''next_steps'') (PStr (lit ''Next steps not available.''))),
          (lit ''suggestions'',
             PList (map (legacy_entry rt) (list_field d (lit ''detailed_suggestions'')))),
          (lit ''feedback'',
             get_default d (lit ''score_explanation'')
               (PStr (lit ''Analysis completed successfully.'')))]"
proof -
  from assms have 1: "py_int rt (get_default d (lit ''ats_score'') (PInt 0)) = Inr (int_field d (lit ''ats_score''))"
    by (intro int_score_field) (simp add: matches_schema_def)
  from assms have 2: "slice_to 15 (get_default d (lit ''matched_keywords'') (PList [])) = Inr (PList (take 15 (list_field d (lit ''matched_keywords''))))"
    by (intro slice_field) (simp add: matches_schema_def)
  from assms have 3: "slice_to 15 (get_default d (lit ''missing_keywords'') (PList [])) = Inr (PList (take 15 (list_field d (lit ''missing_keywords''))))"
    by (intro slice_field) (simp add: matches_schema_def)
  from assms have 4: "slice_to 10 (get_default d (lit ''text_replacements'') (PList [])) = Inr (PList (take 10 (list_field d (lit ''text_replacements''))))"
    by (intro slice_field) (simp add: matches_schema_def)
  from assms have 5: "slice_to 10 (get_default d (lit ''detailed_suggestions'') (PList [])) = Inr (PList (take 10 (list_field d (lit ''detailed_suggestions''))))"
    by (intro slice_field) (simp add: matches_schema_def)
  from assms have 6: "iterate (get_default d (lit ''detailed_suggestions'') (PList [])) = Inr (list_field d (lit ''detailed_suggestions''))"
    by (intro iterate_field) (simp add: matches_schema_def)
  from assms have 7: "map_raising (legacy_suggestion rt) (list_field d (lit ''detailed_suggestions'')) =
      Inr (map (legacy_entry rt) (list_field d (lit ''detailed_suggestions'')))"
    by (intro map_raising_legacy) (simp add: matches_schema_def)
  show ?thesis
    unfolding validated_result_def by (simp add: 1 2 3 4 5 6 7 and_then_def)
qed

lemma analyze_validated:
  assumes "json_loads rt (clean_response s) = Inr (PDict d)" and "matches_schema d"
  shows "analyze_resume rt (Inr (Some s)) =
     [(lit ''ats_score'', PInt (min 100 (max 0 (int_field d (lit ''ats_score''))))),
          (lit ''score_summary'',
             get_default d (lit ''score_summary'') (PStr (lit ''Analysis completed''))),
          (lit ''matched_keywords'', PList (take 15 (list_field d (lit ''matched_keywords'')))),
          (lit ''missing_keywords'', PList (take 15 (list_field d (lit ''missing_keywords'')))),
          (lit ''text_replacements'', PList (take 10 (list_field d (lit ''text_replacements'')))),
          (lit ''detailed_suggestions'',
             PList (take 10 (list_field d (lit ''detailed_suggestions'')))),
          (lit ''score_breakdown'', get_default d (lit ''score_breakdown'') (PDict [])),
          (lit ''score_explanation'',
             get_default d (lit ''score_explanation'')
               (PStr (lit ''Score analysis not available.''))),
          (lit ''next_steps'',
             get_default d (lit ''next_steps'') (PStr (lit ''Next steps not available.''))),
          (lit ''suggestions'',
             PList (map (legacy_entry rt) (list_field d (lit ''detailed_suggestions'')))),
          (lit ''feedback'',
             get_default d (lit ''score_explanation'')
               (PStr (lit ''Analysis completed successfully.'')))]"
  using assms(1) validated_schema [OF assms(2), of rt]
  by (simp add: analyze_resume_def normalize_def and_then_def)

text \<open>
  C6. When the decoder returns an object that matches the schema, the result holds the
  first 15 matched keywords, the first 15 missing keywords, the first 10 text
  replacements and the first 10 detailed suggestions of the object; a list of 20
  matched keywords comes out with 15.
\<close>

theorem list_fields_truncated:
  assumes "json_loads rt (clean_response response) = Inr (PDict d)" and "matches_schema d"
  shows "get (analyze_resume rt (Inr (Some response))) (lit ''matched_keywords'') =
           Some (PList (take 15 (list_field d (lit ''matched_keywords'')))) \<and>
         get (analyze_resume rt (Inr (Some response))) (lit ''missing_keywords'') =
           Some (PList (take 15 (list_field d (lit ''missing_keywords'')))) \<and>
         get (analyze_resume rt (Inr (Some response))) (lit ''text_replacements'') =
           Some (PList (take 10 (list_field d (lit ''text_replacements'')))) \<and>
         get (analyze_resume rt (Inr (Some response))) (lit ''detailed_suggestions'') =
           Some (PList (take 10 (list_field d (lit ''detailed_suggestions'')))) \<and>
         length (take 15 (list_field d (lit ''matched_keywords''))) =
           min 15 (length (list_field d (lit ''matched_keywords'')))"
  unfolding analyze_validated [OF assms]
  by (simp add: get_def lit_def)

text \<open>
  C7. When the decoder returns an object that matches the schema, the score of the
  result is the score of the object clamped to the interval from 0 to 100.
\<close>

theorem score_clamped:
  assumes "json_loads rt (clean_response response) = Inr (PDict d)" and "matches_schema d"
    and "get d (lit ''ats_score'') = Some (PInt n)"
  shows "get (analyze_resume rt (Inr (Some response))) (lit ''ats_score'') =
           Some (PInt (min 100 (max 0 n)))"
  unfolding analyze_validated [OF assms(1,2)]
  using assms(3) by (simp add: get_def int_field_def)








lemmas clean_eval = clean_response_def json_span_def drop_fence_def drop_thinking_def strip_def
  is_space_def contains_def startswith_def endswith_def lit_def Let_def




lemmas schema_eval = matches_schema_def absent_or_list_def list_field_def is_dict_def get_def lit_def

theorem list_fields_truncated_witness:
  "get (analyze_resume
          (knowing (lit ''{\"matched_keywords\": [\"a\",\"b\",\"c\",\"d\",\"e\",\"f\",\"g\",\"h\",\"i\",\"j\",\"k\",\"l\",\"m\",\"n\",\"o\",\"p\",\"q\",\"r\",\"s\",\"t\"]}'')
             (PDict [(lit ''matched_keywords'', PList (map (\<lambda>c. PStr [c]) (lit ''abcdefghijklmnopqrst'')))]))
          (Inr (Some (lit ''{\"matched_keywords\": [\"a\",\"b\",\"c\",\"d\",\"e\",\"f\",\"g\",\"h\",\"i\",\"j\",\"k\",\"l\",\"m\",\"n\",\"o\",\"p\",\"q\",\"r\",\"s\",\"t\"]}''))))
     (lit ''matched_keywords'') =
   Some (PList (map (\<lambda>c. PStr [c]) (lit ''abcdefghijklmno'')))"
proof -
  let ?doc = "lit ''{\"matched_keywords\": [\"a\",\"b\",\"c\",\"d\",\"e\",\"f\",\"g\",\"h\",\"i\",\"j\",\"k\",\"l\",\"m\",\"n\",\"o\",\"p\",\"q\",\"r\",\"s\",\"t\"]}''"
  let ?d = "[(lit ''matched_keywords'', PList (map (\<lambda>c. PStr [c]) (lit ''abcdefghijklmnopqrst'')))]"
  have c: "clean_response ?doc = ?doc"
    by (simp add: clean_eval)
  have j: "json_loads (knowing ?doc (PDict ?d)) (clean_response ?doc) = Inr (PDict ?d)"
    unfolding c by (simp add: knowing_def)
  have m: "matches_schema ?d"
    by (simp add: schema_eval)
  have t: "take 15 (list_field ?d (lit ''matched_keywords'')) = map (\<lambda>c. PStr [c]) (lit ''abcdefghijklmno'')"
    by (simp add: list_field_def get_def lit_def)
  show ?thesis
    using list_fields_truncated [OF j m] unfolding t by simp
qed

theorem score_clamped_witness:
  "get (analyze_resume (knowing (lit ''{\"ats_score\": 150}'') (PDict [(lit ''ats_score'', PInt 150)]))
          (Inr (Some (lit ''{\"ats_score\": 150}'')))) (lit ''ats_score'') = Some (PInt 100) \<and>
   get (analyze_resume (knowing (lit ''{\"ats_score\": -10}'') (PDict [(lit ''ats_score'', PInt (- 10))]))
          (Inr (Some (lit ''{\"ats_score\": -10}'')))) (lit ''ats_score'') = Some (PInt 0)"
proof
  let ?doc = "lit ''{\"ats_score\": 150}''"
  let ?d = "[(lit ''ats_score'', PInt 150)]"
  have c: "clean_response ?doc = ?doc"
    by (simp add: clean_eval)
  have j: "json_loads (knowing ?doc (PDict ?d)) (clean_response ?doc) = Inr (PDict ?d)"
    unfolding c by (simp add: knowing_def)
  have m: "matches_schema ?d"
    by (simp add: schema_eval)
  have g: "get ?d (lit ''ats_score'') = Some (PInt 150)"
    by (simp add: get_def)
  show "get (analyze_resume (knowing ?doc (PDict ?d)) (Inr (Some ?doc))) (lit ''ats_score'') = Some (PInt 100)"
    using score_clamped [OF j m g] by simp
next
  let ?doc = "lit ''{\"ats_score\": -10}''"
  let ?d = "[(lit ''ats_score'', PInt (- 10))]"
  have c: "clean_response ?doc = ?doc"
    by (simp add: clean_eval)
  have j: "json_loads (knowing ?doc (PDict ?d)) (clean_response ?doc) = Inr (PDict ?d)"
    unfolding c by (simp add: knowing_def)
  have m: "matches_schema ?d"
    by (simp add: schema_eval)
  have g: "get ?d (lit ''ats_score'') = Some (PInt (- 10))"
    by (simp add: get_def)
  show "get (analyze_resume (knowing ?doc (PDict ?d)) (Inr (Some ?doc))) (lit ''ats_score'') = Some (PInt 0)"
    using score_clamped [OF j m g] by simp
qed


section \<open>Properties of the text extractor\<close>

lemmas extension_eval = file_extension_def lower_def lower_char_def lit_def

text \<open>
  C5. For a file whose extension (the part of the lowered name after the last full
  stop) is none of \<open>txt\<close>, \<open>pdf\<close>, \<open>docx\<close> and \<open>doc\<close>, \<open>extract_text\<close> fails: the
  \<open>ValueError\<close> for the unsupported format is raised and reaches the caller wrapped in
  the exception of the outer handler.
\<close>

theorem unsupported_extension_fails:
  assumes "file_extension (name f) \<notin> {lit ''txt'', lit ''pdf'', lit ''docx'', lit ''doc''}"
  shows "extract_text env rt (Some f) =
           Inl (Error_processing (file_extension (name f))
                  (Unsupported_format (file_extension (name f))))"
  using assms by (simp add: extract_text_def Let_def)

theorem unsupported_extension_fails_witness:
  "extract_text \<lparr>pdf_reader = None, docx_reader = None\<rparr> ascii_runtime
     (Some \<lparr>name = lit ''resume.rtf'', data = []\<rparr>) =
     Inl (Error_processing (lit ''rtf'') (Unsupported_format (lit ''rtf'')))"
proof -
  have e: "file_extension (name \<lparr>name = lit ''resume.rtf'', data = []\<rparr>) = lit ''rtf''"
    by (simp add: extension_eval)
  have "lit ''rtf'' \<notin> {lit ''txt'', lit ''pdf'', lit ''docx'', lit ''doc''}"
    by (simp add: lit_def)
  then show ?thesis
    using unsupported_extension_fails [of "\<lparr>name = lit ''resume.rtf'', data = []\<rparr>"
        "\<lparr>pdf_reader = None, docx_reader = None\<rparr>" ascii_runtime]
    unfolding e by simp
qed

text \<open>
  A file whose decoded content is blank: the PDF and the DOCX branch refuse it; the
  TXT branch has no such test and returns the empty text.
\<close>

lemma collapse_all:
  "list_all cls s \<Longrightarrow> s \<noteq> [] \<Longrightarrow> collapse_runs cls s = [32]"
  by (induction cls s rule: collapse_runs.induct) auto

lemma clean_text_blank:
  assumes "list_all is_space content"
  shows "clean_text rt content = []"
proof (cases "content = []")
  case True
  then show ?thesis by (simp add: clean_text_def)
next
  case False
  have "collapse_runs is_space content = [32]"
    using assms False by (rule collapse_all)
  then show ?thesis
    using False by (simp add: clean_text_def kept_char_def is_space_def strip_def)
qed

lemma blank_txt_is_accepted:
  assumes "file_extension (name f) = lit ''txt''"
    and "decode_utf8 (data f) = Some content" and "list_all is_space content"
  shows "extract_text env rt (Some f) = Inr []"
  using assms by (simp add: extract_text_def extract_text_from_txt_def clean_text_blank)

lemma blank_pdf_is_refused:
  assumes "file_extension (name f) = lit ''pdf''"
    and "pdf_reader env = Some reader" and "reader (data f) = Inr pages"
    and "strip (join_lines pages) = []"
  shows "extract_text env rt (Some f) =
           Inl (Error_processing (lit ''pdf'') (Failed_to_process PDF (No_text_extracted PDF)))"
  using assms by (simp add: extract_text_def extract_text_from_pdf_def lit_def)

lemma blank_docx_is_refused:
  assumes "file_extension (name f) = lit ''docx'' \<or> file_extension (name f) = lit ''doc''"
    and "docx_reader env = Some reader" and "reader (data f) = Inr doc"
    and "strip (join_lines (filter (\<lambda>t. strip t \<noteq> []) (paragraphs doc) @
                             filter (\<lambda>t. strip t \<noteq> []) (concat (concat (tables doc))))) = []"
  shows "extract_text env rt (Some f) =
           Inl (Error_processing (file_extension (name f))
                  (Failed_to_process DOCX (No_text_extracted DOCX)))"
  using assms by (auto simp add: extract_text_def extract_text_from_docx_def lit_def Let_def)

text \<open>
  C3 at a text file of a blank, a line feed and a blank: \<open>extract_text\<close> returns the
  empty text and raises nothing.
\<close>

theorem blank_txt_returns_empty_text:
  "extract_text env rt (Some \<lparr>name = lit ''resume.txt'', data = [32, 10, 32]\<rparr>) = Inr []"
proof -
  have e: "file_extension (name \<lparr>name = lit ''resume.txt'', data = [32, 10, 32]\<rparr>) = lit ''txt''"
    by (simp add: extension_eval)
  have d: "decode_utf8 (data \<lparr>name = lit ''resume.txt'', data = [32, 10, 32]\<rparr>) = Some [32, 10, 32]"
    by (simp add: decode_utf8_def)
  have s: "list_all is_space [32, 10, 32]"
    by (simp add: is_space_def)
  show ?thesis
    by (rule blank_txt_is_accepted [OF e d s])
qed

section \<open>Properties of the report\<close>

lemma keyword_lines_list:
  "absent_or_list result k \<Longrightarrow>
     keyword_lines rt title (get_default result k (PList [])) placeholder =
       Inr (map PStr (keyword_block rt title (list_field result k) placeholder))"
  by (auto simp add: absent_or_list_def keyword_lines_def keyword_block_def get_default_def get_def
      list_field_def truthy_def iterate_def and_then_def split: option.splits pyval.splits)

lemma as_str_prefix:
  "map_raising as_str (map PStr a @ b) = Inr strs \<Longrightarrow> \<exists>rest. strs = a @ rest"
proof (induction a arbitrary: strs)
  case Nil
  then show ?case by simp
next
  case (Cons x a)
  then show ?case
    by (auto simp add: and_then_def as_str_def split: sum.splits)
qed

lemma report_lines_head:
  assumes "absent_or_list result (lit ''matched_keywords'')"
    and "absent_or_list result (lit ''missing_keywords'')"
    and "report_lines rt result = Inr ls"
  shows "\<exists>more. ls = map PStr (report_head rt result) @ more"
  using assms(3)
  unfolding report_lines_def keyword_lines_list [OF assms(1)] keyword_lines_list [OF assms(2)]
  by (auto simp add: and_then_def score_lines_def report_head_def split: sum.splits)

lemma report_head_kept:
  assumes "absent_or_list result (lit ''matched_keywords'')"
    and "absent_or_list result (lit ''missing_keywords'')"
    and "generate_text_report rt result = Inr report"
  shows "\<exists>rest. report = join_lines (report_head rt result @ rest)"
proof -
  from assms(3) obtain ls strs where ls: "report_lines rt result = Inr ls"
    and strs: "map_raising as_str ls = Inr strs" and r: "report = join_lines strs"
    by (auto simp add: generate_text_report_def and_then_def split: sum.splits)
  from report_lines_head [OF assms(1,2) ls] obtain more
    where "ls = map PStr (report_head rt result) @ more" by blast
  with strs as_str_prefix obtain rest where "strs = report_head rt result @ rest" by blast
  with r show ?thesis by blast
qed

lemma scan_line_bounds:
  "length (matched_keywords st) \<le> 10 \<Longrightarrow> length (missing_keywords st) \<le> 10 \<Longrightarrow>
     length (matched_keywords (scan_line st l)) \<le> 10 \<and>
     length (missing_keywords (scan_line st l)) \<le> 10"
  by (simp add: scan_line_alt split: option.splits)

lemma scan_lines_bounds:
  "length (matched_keywords st) \<le> 10 \<Longrightarrow> length (missing_keywords st) \<le> 10 \<Longrightarrow>
     length (matched_keywords (scan_lines st ls)) \<le> 10 \<and>
     length (missing_keywords (scan_lines st ls)) \<le> 10"
proof (induction ls arbitrary: st)
  case Nil
  then show ?case by (simp add: scan_lines_Nil)
next
  case (Cons l ls)
  from scan_line_bounds [OF Cons.prems, of l] Cons.IH [of "scan_line st l"]
  show ?case by (simp add: scan_lines_Cons)
qed

lemma rescan_bounds:
  assumes "parse_fallback_response rt t = Inr d"
  shows "\<exists>n ms xs.
           get d (lit ''ats_score'') = Some (PInt n) \<and> 0 \<le> n \<and> n \<le> 100 \<and>
           get d (lit ''matched_keywords'') = Some (PList (map PStr ms)) \<and> length ms \<le> 10 \<and>
           get d (lit ''missing_keywords'') = Some (PList (map PStr xs)) \<and> length xs \<le> 10"
proof -
  let ?st = "scan_lines scan_init (split_lines t)"
  have b: "length (matched_keywords ?st) \<le> 10 \<and> length (missing_keywords ?st) \<le> 10"
    by (rule scan_lines_bounds) (simp_all add: scan_init_def)
  from assms obtain n where d: "d =
      [(lit ''ats_score'', PInt (min 100 (max 0 n))),
       (lit ''matched_keywords'', PList (map PStr (matched_keywords ?st))),
       (lit ''missing_keywords'', PList (map PStr (missing_keywords ?st))),
       (lit ''suggestions'',
          PList (map PStr (if suggestions ?st \<noteq> [] then suggestions ?st else [default_suggestion]))),
       (lit ''feedback'', PStr fallback_feedback)]"
    by (auto simp add: parse_fallback_response_def Let_def split: sum.splits)
  have 1: "get d (lit ''ats_score'') = Some (PInt (min 100 (max 0 n)))"
    unfolding d by (simp add: get_def)
  have 2: "get d (lit ''matched_keywords'') = Some (PList (map PStr (matched_keywords ?st)))"
    unfolding d by (simp add: get_def lit_def)
  have 3: "get d (lit ''missing_keywords'') = Some (PList (map PStr (missing_keywords ?st)))"
    unfolding d by (simp add: get_def lit_def)
  show ?thesis
    using 1 2 3 b by (intro exI [of _ "min 100 (max 0 n)"] exI [of _ "matched_keywords ?st"]
        exI [of _ "missing_keywords ?st"]) simp
qed

text \<open>
  C2, as amended. The report of a result whose keyword fields are lists carries the
  score and the keywords verbatim and in order: it starts with the score title, the
  line of the score followed by \<open>/100\<close>, the summary and an empty line, then the title
  of the matched keywords, one bulleted line for every matched keyword (or one for the
  placeholder) and an empty line, then the same for the missing keywords. Scanning the
  report again with \<open>parse_fallback_response\<close> gives, when it returns, a score from 0
  to 100 and at most ten keywords in either list; it need not give back the score and
  the keywords of the result.
\<close>

theorem report_keeps_score_and_keywords:
  assumes "absent_or_list result (lit ''matched_keywords'')"
    and "absent_or_list result (lit ''missing_keywords'')"
    and "generate_text_report rt result = Inr report"
  shows "(\<exists>rest. report = join_lines (report_head rt result @ rest)) \<and>
         (\<forall>d. parse_fallback_response rt report = Inr d \<longrightarrow>
            (\<exists>n ms xs.
               get d (lit ''ats_score'') = Some (PInt n) \<and> 0 \<le> n \<and> n \<le> 100 \<and>
               get d (lit ''matched_keywords'') = Some (PList (map PStr ms)) \<and> length ms \<le> 10 \<and>
               get d (lit ''missing_keywords'') = Some (PList (map PStr xs)) \<and> length xs \<le> 10))"
  using report_head_kept [OF assms] rescan_bounds by blast

lemmas report_eval = generate_text_report_def report_lines_def and_then_def keyword_lines_def score_lines_def
  text_replacement_lines_def detailed_suggestion_lines_def explanation_lines_def next_steps_lines_def
  get_default_def get_def truthy_def iterate_def fmt_def as_str_def bullet_def lit_def Let_def

lemma int_str_80: "int_str 80 = lit ''80''"
  by code_simp

lemma example_rendered: "generate_text_report ascii_runtime example_result = Inr example_report"
  by (simp add: report_eval example_result_def example_report_def ascii_runtime_def ascii_str_def
      int_str_80)

lemma example_rescanned:
  "parse_fallback_response ascii_runtime example_report =
     Inr [(lit ''ats_score'', PInt 50), (lit ''matched_keywords'', PList []),
          (lit ''missing_keywords'', PList []),
          (lit ''suggestions'', PList [PStr default_suggestion]),
          (lit ''feedback'', PStr fallback_feedback)]"
  by (simp add: example_report_def parse_eval ascii_runtime_def ascii_digit_def)

text \<open>
  C2 as stated fails: for the result with the score 80, the matched keyword
  \<open>Python\<close> and the missing keyword \<open>AWS\<close>, the report scanned again gives the score
  50 and two empty keyword lists.
\<close>

theorem round_trip_loses_score_and_keywords:
  "generate_text_report ascii_runtime example_result = Inr example_report \<and>
   parse_fallback_response ascii_runtime example_report =
     Inr [(lit ''ats_score'', PInt 50), (lit ''matched_keywords'', PList []),
          (lit ''missing_keywords'', PList []),
          (lit ''suggestions'', PList [PStr default_suggestion]),
          (lit ''feedback'', PStr fallback_feedback)] \<and>
   get example_result (lit ''ats_score'') = Some (PInt 80) \<and>
   get example_result (lit ''matched_keywords'') = Some (PList [PStr (lit ''Python'')]) \<and>
   get example_result (lit ''missing_keywords'') = Some (PList [PStr (lit ''AWS'')])"
  by (simp add: example_rendered example_rescanned) (simp add: example_result_def get_def lit_def)

theorem report_keeps_score_and_keywords_witness:
  "(\<exists>rest. example_report = join_lines (report_head ascii_runtime example_result @ rest)) \<and>
   (\<exists>n ms xs.
      get [(lit ''ats_score'', PInt 50), (lit ''matched_keywords'', PList []),
           (lit ''missing_keywords'', PList []),
           (lit ''suggestions'', PList [PStr default_suggestion]),
           (lit ''feedback'', PStr fallback_feedback)] (lit ''ats_score'') = Some (PInt n) \<and>
      0 \<le> n \<and> n \<le> 100 \<and>
      get [(lit ''ats_score'', PInt 50), (lit ''matched_keywords'', PList []),
           (lit ''missing_keywords'', PList []),
           (lit ''suggestions'', PList [PStr default_suggestion]),
           (lit ''feedback'', PStr fallback_feedback)] (lit ''matched_keywords'') =
        Some (PList (map PStr ms)) \<and> length ms \<le> 10 \<and>
      get [(lit ''ats_score'', PInt 50), (lit ''matched_keywords'', PList []),
           (lit ''missing_keywords'', PList []),
           (lit ''suggestions'', PList [PStr default_suggestion]),
           (lit ''feedback'', PStr fallback_feedback)] (lit ''missing_keywords'') =
        Some (PList (map PStr xs)) \<and> length xs \<le> 10)"
proof -
  have a: "absent_or_list example_result (lit ''matched_keywords'')"
    by (simp add: absent_or_list_def example_result_def get_def lit_def)
  have b: "absent_or_list example_result (lit ''missing_keywords'')"
    by (simp add: absent_or_list_def example_result_def get_def lit_def)
  show ?thesis
    using report_keeps_score_and_keywords [OF a b example_rendered] example_rescanned by blast
qed

end
